theory Spec2Isabelle
  imports Main
begin

section \<open>JavaScript values rendered as text\<close>

text \<open>
  Template literals and \<^verbatim>\<open>toString()\<close> render a whole number in decimal, with a leading
  minus sign when it is negative, as long as it is a safe integer (its magnitude is at
  most \<^verbatim>\<open>Number.MAX_SAFE_INTEGER\<close>, which is \<open>2\<^sup>5\<^sup>3 - 1\<close>). Beyond that the text depends
  on the floating-point value (rounded digits, and exponent notation from \<open>10\<^sup>2\<^sup>1\<close> on); that
  conversion of the runtime is an argument, \<open>toString_large\<close>.
  \<^verbatim>\<open>Array.prototype.join\<close> puts the separator between the elements.
\<close>

definition digit :: "nat \<Rightarrow> char" where
  "digit d =
     (if d = 0 then CHR ''0'' else if d = 1 then CHR ''1'' else if d = 2 then CHR ''2''
      else if d = 3 then CHR ''3'' else if d = 4 then CHR ''4'' else if d = 5 then CHR ''5''
      else if d = 6 then CHR ''6'' else if d = 7 then CHR ''7'' else if d = 8 then CHR ''8''
      else CHR ''9'')"

fun decimal :: "nat \<Rightarrow> string" where
  "decimal n = (if n < 10 then [digit n] else decimal (n div 10) @ [digit (n mod 10)])"

definition MAX_SAFE_INTEGER :: int where
  "MAX_SAFE_INTEGER = 9007199254740991"

definition Number_toString :: "(int \<Rightarrow> string) \<Rightarrow> int \<Rightarrow> string" where
  "Number_toString toString_large i =
     (if \<bar>i\<bar> \<le> MAX_SAFE_INTEGER then
        (if i < 0 then ''-'' @ decimal (nat (- i)) else decimal (nat i))
      else toString_large i)"

fun array_join :: "string \<Rightarrow> string list \<Rightarrow> string" where
  "array_join sep [] = []"
| "array_join sep [x] = x"
| "array_join sep (x # y # ys) = x @ sep @ array_join sep (y # ys)"

section \<open>The MFA method (mfa-method.ts)\<close>

datatype MFAMethodType = DEVICE | SMS | VOICE

text \<open>
  \<^verbatim>\<open>numberId\<close> is \<^verbatim>\<open>undefined\<close> for the device method, which is \<open>None\<close> here.
\<close>

record MFAMethod =
  type :: MFAMethodType
  numberId :: "int option"

definition MFAMethod_update :: "string \<Rightarrow> int \<Rightarrow> MFAMethod" where
  "MFAMethod_update mfaMethod n =
     (if mfaMethod = ''sms'' then \<lparr>type = SMS, numberId = Some n\<rparr>
      else if mfaMethod = ''voice'' then \<lparr>type = VOICE, numberId = Some n\<rparr>
      else \<lparr>type = DEVICE, numberId = None\<rparr>)"

definition isDevice :: "MFAMethod \<Rightarrow> bool" where
  "isDevice this = (type this = DEVICE)"

definition isSMS :: "MFAMethod \<Rightarrow> bool" where
  "isSMS this = (type this = SMS)"

definition isVoice :: "MFAMethod \<Rightarrow> bool" where
  "isVoice this = (type this = VOICE)"

definition numberId_text :: "(int \<Rightarrow> string) \<Rightarrow> int option \<Rightarrow> string" where
  "numberId_text toString_large n =
     (case n of None \<Rightarrow> ''undefined'' | Some i \<Rightarrow> Number_toString toString_large i)"

definition MFAMethod_toString :: "(int \<Rightarrow> string) \<Rightarrow> MFAMethod \<Rightarrow> string" where
  "MFAMethod_toString toString_large this =
     (case type this of
        SMS \<Rightarrow>
          [CHR 0x27] @ ''SMS'' @ [CHR 0x27] @ '' (Number ID: '' @
          numberId_text toString_large (numberId this) @ '')''
      | VOICE \<Rightarrow>
          [CHR 0x27] @ ''Voice'' @ [CHR 0x27] @ '' (Number ID: '' @
          numberId_text toString_large (numberId this) @ '')''
      | DEVICE \<Rightarrow> [CHR 0x27] @ ''Device'' @ [CHR 0x27])"

text \<open>
  What the methods read of an Axios response: its status and its data. The data of a
  failed phone resend is an object whose \<^verbatim>\<open>trustedPhoneNumbers\<close> property is either
  falsy (absent, \<^verbatim>\<open>null\<close>), some value that is not an array, or an array of trusted numbers,
  each with an \<^verbatim>\<open>id\<close> and a \<^verbatim>\<open>numberWithDialCode\<close>. Falsy response data is \<open>None\<close>.
\<close>

record TrustedPhoneNumber =
  number_id :: int
  numberWithDialCode :: string

datatype PhonesProperty = Falsy | NotAnArray | PhoneArray "TrustedPhoneNumber list"

record ResponseData =
  trustedPhoneNumbers :: PhonesProperty

record AxiosResponse =
  status :: int
  data :: "ResponseData option"

definition resendSuccessful :: "MFAMethod \<Rightarrow> AxiosResponse \<Rightarrow> bool" where
  "resendSuccessful this res =
     (case type this of
        VOICE \<Rightarrow> status res = 200
      | SMS \<Rightarrow> status res = 200
      | DEVICE \<Rightarrow> status res = 202)"

definition enterSuccessful :: "MFAMethod \<Rightarrow> AxiosResponse \<Rightarrow> bool" where
  "enterSuccessful this res =
     (case type this of
        VOICE \<Rightarrow> status res = 200
      | SMS \<Rightarrow> status res = 200
      | DEVICE \<Rightarrow> status res = 204)"

text \<open>
  The error handed to \<^verbatim>\<open>processResendError\<close>: its \<^verbatim>\<open>name\<close> and, when the backend
  answered, its \<^verbatim>\<open>response\<close>. The warning that comes back carries a message, the context
  added to it and the error it was caused by.
\<close>

record ResendError =
  name :: string
  response :: "AxiosResponse option"

record iCloudWarning =
  message :: string
  ctx :: "(string \<times> ResponseData) list"
  cause :: "ResendError option"

definition new_iCloudWarning :: "string \<Rightarrow> iCloudWarning" where
  "new_iCloudWarning m = \<lparr>message = m, ctx = [], cause = None\<rparr>"

definition addContext :: "string \<Rightarrow> ResponseData \<Rightarrow> iCloudWarning \<Rightarrow> iCloudWarning" where
  "addContext k v w = w\<lparr>ctx := ctx w @ [(k, v)]\<rparr>"

definition addCause :: "ResendError \<Rightarrow> iCloudWarning \<Rightarrow> iCloudWarning" where
  "addCause err w = w\<lparr>cause := Some err\<rparr>"

definition phone_line :: "(int \<Rightarrow> string) \<Rightarrow> TrustedPhoneNumber \<Rightarrow> string" where
  "phone_line toString_large number =
     ''- '' @ Number_toString toString_large (number_id number) @ '': '' @ numberWithDialCode number"

definition processResendError ::
  "(int \<Rightarrow> string) \<Rightarrow> MFAMethod \<Rightarrow> ResendError \<Rightarrow> iCloudWarning" where
  "processResendError toString_large this err =
     (let unknown = addCause err (new_iCloudWarning
            (''Bad request, unknown cause with method '' @ MFAMethod_toString toString_large this))
      in case response err of
        None \<Rightarrow> addCause err (new_iCloudWarning ''No response received'')
      | Some res \<Rightarrow>
          if name err \<noteq> ''AxiosError'' then addCause err (new_iCloudWarning ''No response received'')
          else if status res = 403 then addCause err (new_iCloudWarning ''Timeout'')
          else if status res = 412 then
            (case data res of
               None \<Rightarrow> addCause err (new_iCloudWarning ''Bad request, no response data'')
             | Some d \<Rightarrow>
                 if type this = SMS \<or> type this = VOICE then
                   (case trustedPhoneNumbers d of
                      PhoneArray trustedPhones \<Rightarrow>
                        if trustedPhones = [] then
                          addCause err (addContext ''response.data'' d
                            (new_iCloudWarning ''No trusted phone numbers registered''))
                        else if \<not> list_ex (\<lambda>number. Some (number_id number) = numberId this) trustedPhones then
                          addCause err (addContext ''response.data'' d
                            (new_iCloudWarning
                              (''Selected Phone Number ID does not exist.\<newline>Available numbers:\<newline>''
                                @ array_join ''\<newline>'' (map (phone_line toString_large) trustedPhones))))
                        else unknown
                    | _ \<Rightarrow>
                        addCause err (addContext ''response.data'' d
                          (new_iCloudWarning ''No trusted phone numbers registered'')))
                 else unknown)
          else unknown)"

section \<open>The library lock and the applications (icloud-app.ts)\<close>

text \<open>
  Errors of the application: the class of the error, its message, the error it was caused
  by (\<^verbatim>\<open>addCause\<close>) and the context entries added to it (\<^verbatim>\<open>addContext\<close>).
\<close>

datatype ErrorClass = LibraryError | iCloudError | SyncError | ArchiveError | ComponentError

datatype AppError =
  AppError (errorClass: ErrorClass) (errorMessage: string)
    (errorCause: "AppError option") (errorContext: "(string \<times> string) list")

definition new_AppError :: "ErrorClass \<Rightarrow> string \<Rightarrow> AppError" where
  "new_AppError c m = AppError c m None []"

fun AppError_addCause :: "AppError \<Rightarrow> AppError \<Rightarrow> AppError" where
  "AppError_addCause err (AppError c m _ kvs) = AppError c m (Some err) kvs"

fun AppError_addContext :: "string \<Rightarrow> string \<Rightarrow> AppError \<Rightarrow> AppError" where
  "AppError_addContext k v (AppError c m cs kvs) = AppError c m cs (kvs @ [(k, v)])"

text \<open>
  What an application object reads of itself and of its process: the name of the class
  it was constructed from (\<^verbatim>\<open>this.constructor.name\<close>), whether \<^verbatim>\<open>options.force\<close> is set,
  the PID of the process and, for the archive application, the path to archive.
\<close>

datatype AppClass = TokenApp | SyncApp | ArchiveApp

record App =
  className :: AppClass
  force :: bool
  pid :: nat
  archivePath :: string

text \<open>
  The lock file is \<^verbatim>\<open>.library.lock\<close> in the data directory. The two functions touch no
  other file, so the state of the file system is the content of this file, \<open>None\<close> when
  it does not exist. File operations are taken to succeed.
\<close>

type_synonym LockFile = "string option"

definition existsSync :: "LockFile \<Rightarrow> bool" where
  "existsSync lockFile = (lockFile \<noteq> None)"

definition rm :: "LockFile \<Rightarrow> LockFile" where
  "rm lockFile = None"

definition writeFile :: "string \<Rightarrow> LockFile \<Rightarrow> LockFile" where
  "writeFile content lockFile = Some content"

definition acquireLibraryLock :: "App \<Rightarrow> LockFile \<Rightarrow> (AppError + unit) \<times> LockFile" where
  "acquireLibraryLock this lockFile =
     (case lockFile of
        Some lockingProcess \<Rightarrow>
          if \<not> force this then
            (Inl (new_AppError LibraryError
               (''Locked by PID '' @ lockingProcess @
                ''. Use --force (or FORCE env variable) to forcefully remove the lock'')),
             lockFile)
          else (Inr (), writeFile (decimal (pid this)) (rm lockFile))
      | None \<Rightarrow> (Inr (), writeFile (decimal (pid this)) lockFile))"

definition releaseLibraryLock :: "App \<Rightarrow> LockFile \<Rightarrow> (AppError + unit) \<times> LockFile" where
  "releaseLibraryLock this lockFile =
     (case lockFile of
        None \<Rightarrow>
          (Inl (new_AppError LibraryError ''Unable to release library lock, no lock exists''),
           lockFile)
      | Some lockingProcess \<Rightarrow>
          if lockingProcess \<noteq> decimal (pid this) \<and> \<not> force this then
            (Inl (new_AppError LibraryError
               (''Locked by PID '' @ lockingProcess @
                '', cannot release. Use --force (or FORCE env variable) to forcefully remove the lock'')),
             lockFile)
          else (Inr (), rm lockFile))"

text \<open>
  The components an application drives are outside this file; a run is given what each of
  them does when called: \<^verbatim>\<open>icloud.authenticate()\<close> resolves (\<open>None\<close>) or rejects with
  an error, \<^verbatim>\<open>syncEngine.sync()\<close> rejects or resolves to the remote assets and albums,
  and \<^verbatim>\<open>archiveEngine.archivePath\<close> resolves or rejects. A run calls each of them at
  most once, and none of them touches the lock file. The state of a run is the lock file
  and the calls made to the components so far, with their arguments; registering and
  removing event listeners is left out.
\<close>

datatype Asset = Asset string

datatype Album = Album string

datatype Call = Authenticate | Sync | ArchivePath string "Asset list"

record Components =
  icloud_authenticate :: "AppError option"
  syncEngine_sync :: "AppError + (Asset list \<times> Album list)"
  archiveEngine_archivePath :: "AppError option"

record RunState =
  lockFile :: LockFile
  calls :: "Call list"

definition iCloudApp_run :: "App \<Rightarrow> Components \<Rightarrow> RunState \<Rightarrow> (AppError + unit) \<times> RunState" where
  "iCloudApp_run this c s =
     (case acquireLibraryLock this (lockFile s) of
        (Inl err, l) \<Rightarrow>
          (Inl (AppError_addCause err (new_AppError LibraryError ''Unable to acquire lock'')),
           s\<lparr>lockFile := l\<rparr>)
      | (Inr _, l) \<Rightarrow>
          (let s' = s\<lparr>lockFile := l, calls := calls s @ [Authenticate]\<rparr>
           in case icloud_authenticate c of
                Some err \<Rightarrow>
                  (Inl (AppError_addCause err (new_AppError iCloudError ''Authentication failed'')), s')
              | None \<Rightarrow> (Inr (), s')))"

definition iCloudApp_clean :: "App \<Rightarrow> RunState \<Rightarrow> (AppError + unit) \<times> RunState" where
  "iCloudApp_clean this s =
     (case releaseLibraryLock this (lockFile s) of (r, l) \<Rightarrow> (r, s\<lparr>lockFile := l\<rparr>))"

definition SyncApp_clean :: "App \<Rightarrow> RunState \<Rightarrow> (AppError + unit) \<times> RunState" where
  "SyncApp_clean this s = iCloudApp_clean this s"

definition ArchiveApp_clean :: "App \<Rightarrow> RunState \<Rightarrow> (AppError + unit) \<times> RunState" where
  "ArchiveApp_clean this s = SyncApp_clean this s"

text \<open>\<^verbatim>\<open>this.clean()\<close> runs the method of the class the object was constructed from.\<close>

definition clean :: "App \<Rightarrow> RunState \<Rightarrow> (AppError + unit) \<times> RunState" where
  "clean this s =
     (case className this of
        ArchiveApp \<Rightarrow> ArchiveApp_clean this s
      | SyncApp \<Rightarrow> SyncApp_clean this s
      | TokenApp \<Rightarrow> iCloudApp_clean this s)"

text \<open>
  A \<^verbatim>\<open>finally\<close> block runs after the \<^verbatim>\<open>try\<close> and \<^verbatim>\<open>catch\<close> blocks whatever their
  outcome; when it throws, its error replaces that outcome, otherwise the outcome stands.
\<close>

definition try_finally ::
  "(AppError + 'a) \<times> RunState \<Rightarrow> (RunState \<Rightarrow> (AppError + unit) \<times> RunState) \<Rightarrow> (AppError + 'a) \<times> RunState" where
  "try_finally outcome block =
     (case outcome of
        (r, s) \<Rightarrow> (case block s of (Inl err, s') \<Rightarrow> (Inl err, s') | (Inr _, s') \<Rightarrow> (r, s')))"

definition SyncApp_run ::
  "App \<Rightarrow> Components \<Rightarrow> RunState \<Rightarrow> (AppError + (Asset list \<times> Album list)) \<times> RunState" where
  "SyncApp_run this c s =
     try_finally
       (case iCloudApp_run this c s of
          (Inl err, s1) \<Rightarrow> (Inl (AppError_addCause err (new_AppError SyncError ''Sync failed'')), s1)
        | (Inr _, s1) \<Rightarrow>
            (let s2 = s1\<lparr>calls := calls s1 @ [Sync]\<rparr>
             in case syncEngine_sync c of
                  Inl err \<Rightarrow> (Inl (AppError_addCause err (new_AppError SyncError ''Sync failed'')), s2)
                | Inr result \<Rightarrow> (Inr result, s2)))
       (\<lambda>s'. if className this = SyncApp then clean this s' else (Inr (), s'))"

definition ArchiveApp_run :: "App \<Rightarrow> Components \<Rightarrow> RunState \<Rightarrow> (AppError + unit) \<times> RunState" where
  "ArchiveApp_run this c s =
     try_finally
       (case SyncApp_run this c s of
          (Inl err, s1) \<Rightarrow>
            (Inl (AppError_addContext ''archivePath'' (archivePath this)
               (AppError_addCause err (new_AppError ArchiveError ''Archive failed''))), s1)
        | (Inr (remoteAssets, _), s1) \<Rightarrow>
            (let s2 = s1\<lparr>calls := calls s1 @ [ArchivePath (archivePath this) remoteAssets]\<rparr>
             in case archiveEngine_archivePath c of
                  Some err \<Rightarrow>
                    (Inl (AppError_addContext ''archivePath'' (archivePath this)
                       (AppError_addCause err (new_AppError ArchiveError ''Archive failed''))), s2)
                | None \<Rightarrow> (Inr (), s2)))
       (\<lambda>s'. if className this = ArchiveApp then clean this s' else (Inr (), s'))"

section \<open>The error handler\<close>

text \<open>
  Modelled from the spec: the severity of an error is declared in \<^verbatim>\<open>types.js\<close>, which is not
  among the sources; the specification names the three severities \<^verbatim>\<open>WARN\<close>, \<^verbatim>\<open>FATAL\<close>
  and \<^verbatim>\<open>INTERRUPT\<close>.
\<close>

datatype Severity = WARN | FATAL | INTERRUPT

text \<open>
  What the handler reads of an error: its description (\<^verbatim>\<open>getDescription()\<close>), its
  severity, whether it is an instance of \<^verbatim>\<open>InterruptError\<close>, and its cause when it has one.
\<close>

record iCPSError =
  getDescription :: string
  sev :: Severity
  instanceofInterruptError :: bool
  icps_cause :: "string option"

text \<open>
  The crash report handed to the reporting client, with the attributes set on it. The
  context attribute and the attached log file are left out.
\<close>

record Report =
  report_description :: string
  report_severity :: Severity
  report_uuid :: string
  report_cause :: "string option"

datatype BacktraceClient = BacktraceClient

record ErrorHandler =
  btClient :: "BacktraceClient option"

text \<open>The constructor initialises the reporting client only when crash reporting is enabled.\<close>

definition new_ErrorHandler :: "bool \<Rightarrow> ErrorHandler" where
  "new_ErrorHandler enableCrashReporting =
     \<lparr>btClient = (if enableCrashReporting then Some BacktraceClient else None)\<rparr>"

text \<open>
  What handling an error does, in order: reports sent, events emitted, lines logged and
  the exit of the process.
\<close>

datatype Effect =
  SendReport Report
  | EmitEvent string string
  | LogWarn string
  | LogError string
  | ProcessExit nat

definition ERROR_EVENT :: string where
  "ERROR_EVENT = ''error''"

definition WARN_EVENT :: string where
  "WARN_EVENT = ''warn''"

text \<open>
  \<^verbatim>\<open>reportError\<close> returns the error code and sends the report, when there is a client. The
  fresh identifier of \<^verbatim>\<open>randomUUID()\<close> is an argument, and the send is taken to succeed.
\<close>

definition reportError :: "ErrorHandler \<Rightarrow> string \<Rightarrow> iCPSError \<Rightarrow> string \<times> Effect list" where
  "reportError this errorUUID err =
     (case btClient this of
        None \<Rightarrow> (''No error code! Pelase enable crash reporting!'', [])
      | Some client \<Rightarrow>
          (errorUUID,
           [SendReport \<lparr>report_description = getDescription err, report_severity = sev err,
              report_uuid = errorUUID, report_cause = icps_cause err\<rparr>]))"

definition handle :: "ErrorHandler \<Rightarrow> string \<Rightarrow> iCPSError \<Rightarrow> Effect list" where
  "handle this errorUUID err =
     (let shouldReport = (sev err = FATAL \<and> \<not> instanceofInterruptError err);
          shouldExit = (sev err = FATAL);
          reported =
            (if shouldReport then
               (case reportError this errorUUID err of
                  (errorId, sent) \<Rightarrow>
                    (getDescription err @ '' (Error Code: '' @ errorId @ '')'', sent))
             else (getDescription err, []));
          message = fst reported
      in snd reported @
         (case sev err of
            WARN \<Rightarrow> [EmitEvent WARN_EVENT message, LogWarn message]
          | _ \<Rightarrow> [EmitEvent ERROR_EVENT message, LogError message]) @
         (if shouldExit then [ProcessExit 1] else []))"

text \<open>
  The listeners that the constructor registers for \<^verbatim>\<open>SIGTERM\<close> and \<^verbatim>\<open>SIGINT\<close> hand a new
  \<^verbatim>\<open>InterruptError\<close> to \<^verbatim>\<open>handle\<close>. The class is declared in \<^verbatim>\<open>types.js\<close>, which is not
  among the sources, so the error object is an argument. Neither the listener nor
  \<^verbatim>\<open>handle\<close> performs a file operation: the lock file after the listener ran is the lock
  file before it.
\<close>

definition signalListener ::
  "ErrorHandler \<Rightarrow> string \<Rightarrow> iCPSError \<Rightarrow> LockFile \<Rightarrow> Effect list \<times> LockFile" where
  "signalListener this errorUUID interruptError lock = (handle this errorUUID interruptError, lock)"

section \<open>Scrubbing credentials from the process\<close>

text \<open>
  The state \<^verbatim>\<open>cleanEnv\<close> works on: the environment, the argument vector and the
  arguments of the runtime. An assignment beyond the end of a JavaScript array extends
  the array and leaves empty slots in between, so an entry of \<^verbatim>\<open>process.argv\<close> is a string
  or an empty slot (\<open>None\<close>).
\<close>

record Process =
  env :: "string \<rightharpoonup> string"
  argv :: "string option list"
  execArgv :: "string list"

fun findIndex :: "('a \<Rightarrow> bool) \<Rightarrow> 'a list \<Rightarrow> int" where
  "findIndex P [] = - 1"
| "findIndex P (x # xs) =
     (if P x then 0 else (let i = findIndex P xs in if i = - 1 then - 1 else i + 1))"

definition array_set :: "'a option list \<Rightarrow> nat \<Rightarrow> 'a \<Rightarrow> 'a option list" where
  "array_set xs i v =
     (if i < length xs then xs[i := Some v]
      else xs @ replicate (i - length xs) None @ [Some v])"

record ConfidentialEntry =
  entry_env :: string
  cli :: "string list"
  replacement :: string

definition confidentialData :: "ConfidentialEntry list" where
  "confidentialData =
     [\<lparr>entry_env = ''APPLE_ID_USER'', cli = [''-u'', ''--username''],
        replacement = ''<APPLE ID USERNAME>''\<rparr>,
      \<lparr>entry_env = ''APPLE_ID_PWD'', cli = [''-p'', ''--password''],
        replacement = ''<APPLE ID PASSWORD>''\<rparr>,
      \<lparr>entry_env = ''TRUST_TOKEN'', cli = [''-T'', ''--trust-token''],
        replacement = ''<TRUST TOKEN>''\<rparr>]"

text \<open>A variable of the environment is truthy when it is set to a non-empty string.\<close>

definition env_truthy :: "Process \<Rightarrow> string \<Rightarrow> bool" where
  "env_truthy p k = (case env p k of None \<Rightarrow> False | Some v \<Rightarrow> v \<noteq> [])"

text \<open>The body of the inner loop, for one flag of one confidential entry.\<close>

definition cleanCliValue :: "string \<Rightarrow> string \<Rightarrow> Process \<Rightarrow> Process" where
  "cleanCliValue repl confidentalCliValue p =
     (let confidentalCliValueIndexArgV =
            findIndex (\<lambda>value. value = Some confidentalCliValue) (argv p);
          p1 = (if confidentalCliValueIndexArgV \<noteq> - 1
                then p\<lparr>argv := array_set (argv p) (nat (confidentalCliValueIndexArgV + 1)) repl\<rparr>
                else p);
          confidentalCliValueIndexExecArgV =
            findIndex (\<lambda>value. value = confidentalCliValue) (execArgv p1)
      in if confidentalCliValueIndexExecArgV \<noteq> - 1
         then p1\<lparr>argv := array_set (argv p1) (nat (confidentalCliValueIndexExecArgV + 1)) repl\<rparr>
         else p1)"

text \<open>The body of the outer loop, for one confidential entry.\<close>

definition cleanEntry :: "ConfidentialEntry \<Rightarrow> Process \<Rightarrow> Process" where
  "cleanEntry confidentialEntry p =
     fold (cleanCliValue (replacement confidentialEntry)) (cli confidentialEntry)
       (if env_truthy p (entry_env confidentialEntry)
        then p\<lparr>env := (env p)(entry_env confidentialEntry \<mapsto> replacement confidentialEntry)\<rparr>
        else p)"

definition cleanEnv :: "Process \<Rightarrow> Process" where
  "cleanEnv p = fold cleanEntry confidentialData p"

section \<open>The MFA server\<close>

text \<open>
  Modelled from the spec: the MFA server (\<^verbatim>\<open>mfa-server.ts\<close>) is missing from the sources;
  its unit tests are there. What a handler does is the list of its actions, in order: the
  responses it sends, the events it emits and the handlers it calls, which are what the
  tests observe through mocks.
\<close>

datatype HttpMethod = GET | POST

record Request =
  url :: string
  httpMethod :: HttpMethod

datatype ServerEvent =
  MFA_RECEIVED MFAMethod string
  | HANDLER_EVENT string

datatype Action =
  SendResponse nat string
  | Emit ServerEvent
  | CallHandleMFACode Request
  | CallHandleMFAResend Request

text \<open>
  Modelled from the spec: the endpoint constants of the MFA server (\<^verbatim>\<open>constants.js\<close> of
  the MFA module is missing), as the specification and the expected message of the routing
  test give them.
\<close>

definition CODE_INPUT :: string where
  "CODE_INPUT = ''/mfa''"

definition RESEND_CODE :: string where
  "RESEND_CODE = ''/resend_mfa''"

text \<open>\<^verbatim>\<open>String.prototype.startsWith\<close>.\<close>

definition startsWith :: "string \<Rightarrow> string \<Rightarrow> bool" where
  "startsWith s p = (take (length p) s = p)"

text \<open>
  Modelled from the spec: the validation of the code, exactly six decimal digits.
\<close>

definition six_digits :: "string \<Rightarrow> bool" where
  "six_digits c = (length c = 6 \<and> list_all (\<lambda>ch. ch \<in> set ''0123456789'') c)"

text \<open>
  Modelled from the spec: \<^verbatim>\<open>MFAServer.handleMFACode\<close>, missing from the sources. For
  \<^verbatim>\<open>POST /mfa?code=DDDDDD\<close> it validates that the code is exactly six decimal digits; on
  success it emits \<^verbatim>\<open>MFA_RECEIVED(method, code)\<close> and replies 200 with the confirmation
  \<^verbatim>\<open>Read MFA code: DDDDDD\<close>; on malformed input it replies 400 with
  \<^verbatim>\<open>Unexpected MFA code format! Expecting 6 digits\<close> and emits a warning. The code is what
  follows \<^verbatim>\<open>/mfa?code=\<close> in the URL of the request; the method is the one the server
  currently holds.
\<close>

definition handleMFACode :: "MFAMethod \<Rightarrow> Request \<Rightarrow> Action list" where
  "handleMFACode mfaMethod req =
     (let code = drop (length (CODE_INPUT @ ''?code='')) (url req)
      in if startsWith (url req) (CODE_INPUT @ ''?code='') \<and> six_digits code then
           [Emit (MFA_RECEIVED mfaMethod code), SendResponse 200 (''Read MFA code: '' @ code)]
         else
           [SendResponse 400 ''Unexpected MFA code format! Expecting 6 digits'',
            Emit (HANDLER_EVENT ''Received unexpected MFA code format, expecting 6 digits'')])"

text \<open>
  Modelled from the spec: the list of known endpoints in the 404 message, as the routing
  test expects it (the JSON text of the array of endpoint paths).
\<close>

definition endpoints_json :: string where
  "endpoints_json =
     ''['' @ array_join '','' (map (\<lambda>e. [CHR 0x22] @ e @ [CHR 0x22]) [CODE_INPUT, RESEND_CODE]) @ '']''"

text \<open>
  Modelled from the spec: \<^verbatim>\<open>MFAServer.handleRequest\<close>, missing from the sources. A \<^verbatim>\<open>POST\<close>
  whose URL begins with \<^verbatim>\<open>/mfa\<close> goes to the code handler and one whose URL begins with
  \<^verbatim>\<open>/resend_mfa\<close> to the resend handler; \<^verbatim>\<open>GET /\<close> returns 200 with the identity banner,
  which is an argument here. Anything else: a \<^verbatim>\<open>GET\<close> is answered 400 with
  \<^verbatim>\<open>Method not supported: GET\<close>, a \<^verbatim>\<open>POST\<close> is answered 404 with the list of the known
  endpoints, and both emit a warning. The specification names no other request method.
\<close>

definition handleRequest :: "string \<Rightarrow> Request \<Rightarrow> Action list" where
  "handleRequest banner req =
     (if httpMethod req = GET \<and> url req = ''/'' then [SendResponse 200 banner]
      else if httpMethod req = POST \<and> startsWith (url req) CODE_INPUT then [CallHandleMFACode req]
      else if httpMethod req = POST \<and> startsWith (url req) RESEND_CODE then [CallHandleMFAResend req]
      else if httpMethod req = GET then
        [SendResponse 400 ''Method not supported: GET'',
         Emit (HANDLER_EVENT (''Received unknown method to endpoint '' @ url req @ '': GET''))]
      else
        [SendResponse 404 (''Route not found, available endpoints: '' @ endpoints_json),
         Emit (HANDLER_EVENT (''Received request to unknown endpoint '' @ url req))])"

section \<open>Properties of the MFA method\<close>

text \<open>
  C5: for every response, entering an MFA code counts as successful exactly when the
  status is 204 while the device method is active, and exactly when the status is 200
  while the sms or the voice method is active.
\<close>

theorem enterSuccessful_by_method:
  "(isDevice this \<longrightarrow> enterSuccessful this res = (status res = 204)) \<and>
   (isSMS this \<or> isVoice this \<longrightarrow> enterSuccessful this res = (status res = 200))"
  by (cases "type this") (simp_all add: enterSuccessful_def isDevice_def isSMS_def isVoice_def)

theorem enterSuccessful_by_method_witness:
  "isDevice (MFAMethod_update ''device'' 1) \<and>
   enterSuccessful (MFAMethod_update ''device'' 1) \<lparr>status = 204, data = None\<rparr> \<and>
   isSMS (MFAMethod_update ''sms'' 1) \<and>
   enterSuccessful (MFAMethod_update ''sms'' 1) \<lparr>status = 200, data = None\<rparr>"
proof -
  have dev: "isDevice (MFAMethod_update ''device'' 1)"
    by (simp add: isDevice_def MFAMethod_update_def)
  have sms: "isSMS (MFAMethod_update ''sms'' 1)"
    by (simp add: isSMS_def MFAMethod_update_def)
  from dev sms
    enterSuccessful_by_method [of "MFAMethod_update ''device'' 1" "\<lparr>status = 204, data = None\<rparr>"]
    enterSuccessful_by_method [of "MFAMethod_update ''sms'' 1" "\<lparr>status = 200, data = None\<rparr>"]
  show ?thesis by simp
qed

text \<open>
  C9: for every response, resending an MFA code counts as successful exactly when the
  status is 202 while the device method is active, and exactly when the status is 200
  while the sms or the voice method is active. For the device method the two success
  statuses differ: no response is a successful resend and a successful enter at once.
\<close>

theorem resendSuccessful_by_method:
  "(isDevice this \<longrightarrow> resendSuccessful this res = (status res = 202)) \<and>
   (isSMS this \<or> isVoice this \<longrightarrow> resendSuccessful this res = (status res = 200)) \<and>
   (isDevice this \<longrightarrow> \<not> (resendSuccessful this res \<and> enterSuccessful this res))"
  by (cases "type this")
    (simp_all add: resendSuccessful_def enterSuccessful_def isDevice_def isSMS_def isVoice_def)

theorem resendSuccessful_by_method_witness:
  "isDevice (MFAMethod_update ''device'' 1) \<and>
   resendSuccessful (MFAMethod_update ''device'' 1) \<lparr>status = 202, data = None\<rparr> \<and>
   \<not> enterSuccessful (MFAMethod_update ''device'' 1) \<lparr>status = 202, data = None\<rparr> \<and>
   isVoice (MFAMethod_update ''voice'' 1) \<and>
   resendSuccessful (MFAMethod_update ''voice'' 1) \<lparr>status = 200, data = None\<rparr>"
proof -
  have dev: "isDevice (MFAMethod_update ''device'' 1)"
    by (simp add: isDevice_def MFAMethod_update_def)
  have voice: "isVoice (MFAMethod_update ''voice'' 1)"
    by (simp add: isVoice_def MFAMethod_update_def)
  from dev voice
    resendSuccessful_by_method [of "MFAMethod_update ''device'' 1" "\<lparr>status = 202, data = None\<rparr>"]
    resendSuccessful_by_method [of "MFAMethod_update ''voice'' 1" "\<lparr>status = 200, data = None\<rparr>"]
  show ?thesis by simp
qed

text \<open>
  C4: the sms or voice method with number id \<open>n\<close> is active, the resend failed with an
  Axios error whose response has status 412, and the response data lists a non-empty
  array of trusted phone numbers none of which has the id \<open>n\<close>. Then the warning
  returned has exactly the message \<^verbatim>\<open>Selected Phone Number ID does not exist.\<close>, a
  newline, \<^verbatim>\<open>Available numbers:\<close> and one line \<^verbatim>\<open>- id: numberWithDialCode\<close> for each
  trusted number, in the order of the list, the id written as the runtime writes a number
  (in decimal when it is a safe integer).
\<close>

theorem processResendError_unknown_number_id:
  assumes "type this = SMS \<or> type this = VOICE"
    and "numberId this = Some n"
    and "name err = ''AxiosError''"
    and "response err = Some res"
    and "status res = 412"
    and "data res = Some d"
    and "trustedPhoneNumbers d = PhoneArray phones"
    and "phones \<noteq> []"
    and "\<not> list_ex (\<lambda>number. number_id number = n) phones"
  shows "message (processResendError toString_large this err) =
    ''Selected Phone Number ID does not exist.\<newline>Available numbers:\<newline>'' @
    array_join ''\<newline>''
      (map (\<lambda>number. ''- '' @ Number_toString toString_large (number_id number) @ '': '' @
              numberWithDialCode number)
        phones)"
proof -
  have lines: "map (phone_line toString_large) phones =
      map (\<lambda>number. ''- '' @ Number_toString toString_large (number_id number) @ '': '' @
             numberWithDialCode number) phones"
    by (simp add: phone_line_def)
  have absent: "\<not> list_ex (\<lambda>number. Some (number_id number) = numberId this) phones"
    using assms(2,9) by simp
  show ?thesis
    using assms(1,3-8) absent
    by (simp add: processResendError_def Let_def addCause_def addContext_def
        new_iCloudWarning_def lines del: decimal.simps)
qed

theorem processResendError_unknown_number_id_witness:
  "\<forall>toString_large.
     message (processResendError toString_large (MFAMethod_update ''sms'' 9)
      \<lparr>name = ''AxiosError'',
       response = Some \<lparr>status = 412, data = Some \<lparr>trustedPhoneNumbers = PhoneArray
         [\<lparr>number_id = 2, numberWithDialCode = ''+49-123-456''\<rparr>,
          \<lparr>number_id = 3, numberWithDialCode = ''+49-789-123''\<rparr>]\<rparr>\<rparr>\<rparr>) =
     ''Selected Phone Number ID does not exist.\<newline>Available numbers:\<newline>- 2: +49-123-456\<newline>- 3: +49-789-123''"
proof
  fix toString_large :: "int \<Rightarrow> string"
  show "message (processResendError toString_large (MFAMethod_update ''sms'' 9)
      \<lparr>name = ''AxiosError'',
       response = Some \<lparr>status = 412, data = Some \<lparr>trustedPhoneNumbers = PhoneArray
         [\<lparr>number_id = 2, numberWithDialCode = ''+49-123-456''\<rparr>,
          \<lparr>number_id = 3, numberWithDialCode = ''+49-789-123''\<rparr>]\<rparr>\<rparr>\<rparr>) =
     ''Selected Phone Number ID does not exist.\<newline>Available numbers:\<newline>- 2: +49-123-456\<newline>- 3: +49-789-123''"
    using processResendError_unknown_number_id
      [of "MFAMethod_update ''sms'' 9" 9
        "\<lparr>name = ''AxiosError'',
         response = Some \<lparr>status = 412, data = Some \<lparr>trustedPhoneNumbers = PhoneArray
           [\<lparr>number_id = 2, numberWithDialCode = ''+49-123-456''\<rparr>,
            \<lparr>number_id = 3, numberWithDialCode = ''+49-789-123''\<rparr>]\<rparr>\<rparr>\<rparr>"
        "\<lparr>status = 412, data = Some \<lparr>trustedPhoneNumbers = PhoneArray
           [\<lparr>number_id = 2, numberWithDialCode = ''+49-123-456''\<rparr>,
            \<lparr>number_id = 3, numberWithDialCode = ''+49-789-123''\<rparr>]\<rparr>\<rparr>"
        "\<lparr>trustedPhoneNumbers = PhoneArray
           [\<lparr>number_id = 2, numberWithDialCode = ''+49-123-456''\<rparr>,
            \<lparr>number_id = 3, numberWithDialCode = ''+49-789-123''\<rparr>]\<rparr>"
        "[\<lparr>number_id = 2, numberWithDialCode = ''+49-123-456''\<rparr>,
          \<lparr>number_id = 3, numberWithDialCode = ''+49-789-123''\<rparr>]"
        toString_large]
    by (simp add: MFAMethod_update_def Number_toString_def MAX_SAFE_INTEGER_def digit_def)
qed

section \<open>Properties of the library lock and the applications\<close>

text \<open>
  C6: when the lock file exists and the force option is not set, acquiring the lock fails
  with a library error that names the PID read from the file, and the file is left as it
  was. Otherwise (no lock file, or the force option set) the call succeeds and the file
  holds the PID of the current process.
\<close>

theorem acquireLibraryLock_outcome:
  "(lock = Some lockingProcess \<and> \<not> force this \<longrightarrow>
      acquireLibraryLock this lock =
        (Inl (AppError LibraryError
           (''Locked by PID '' @ lockingProcess @
            ''. Use --force (or FORCE env variable) to forcefully remove the lock'') None []),
         lock)) \<and>
   (lock = None \<or> force this \<longrightarrow>
      acquireLibraryLock this lock = (Inr (), Some (decimal (pid this))))"
  by (cases lock)
    (simp_all add: acquireLibraryLock_def new_AppError_def writeFile_def rm_def del: decimal.simps)

theorem acquireLibraryLock_outcome_witness:
  "acquireLibraryLock \<lparr>className = SyncApp, force = False, pid = 456, archivePath = []\<rparr> (Some ''123'') =
     (Inl (AppError LibraryError
        ''Locked by PID 123. Use --force (or FORCE env variable) to forcefully remove the lock'' None []),
      Some ''123'') \<and>
   acquireLibraryLock \<lparr>className = SyncApp, force = True, pid = 456, archivePath = []\<rparr> (Some ''123'') =
     (Inr (), Some ''456'') \<and>
   acquireLibraryLock \<lparr>className = SyncApp, force = False, pid = 456, archivePath = []\<rparr> None =
     (Inr (), Some ''456'')"
  using
    acquireLibraryLock_outcome [of "Some ''123''" "''123''" "\<lparr>className = SyncApp, force = False, pid = 456, archivePath = []\<rparr>"]
    acquireLibraryLock_outcome [of "Some ''123''" "''123''" "\<lparr>className = SyncApp, force = True, pid = 456, archivePath = []\<rparr>"]
    acquireLibraryLock_outcome [of None "''123''" "\<lparr>className = SyncApp, force = False, pid = 456, archivePath = []\<rparr>"]
  by (simp add: digit_def)

text \<open>
  C1 as stated fails twice. With the force option set, the lock file of another process
  (PID 123, the current process being 456) is deleted. And a process that created the
  lock file and then receives \<^verbatim>\<open>SIGINT\<close> exits with code 1 while its lock file is still
  there: the listener for the signal never releases the lock.
\<close>

theorem library_lock_exit_counterexample:
  "releaseLibraryLock \<lparr>className = SyncApp, force = True, pid = 456, archivePath = []\<rparr> (Some ''123'') =
     (Inr (), None) \<and>
   ''123'' \<noteq> decimal 456 \<and>
   acquireLibraryLock \<lparr>className = SyncApp, force = False, pid = 456, archivePath = []\<rparr> None =
     (Inr (), Some ''456'') \<and>
   signalListener (new_ErrorHandler False) ''id-1''
     \<lparr>getDescription = ''SIGINT'', sev = FATAL, instanceofInterruptError = True, icps_cause = None\<rparr>
     (Some ''456'') =
     ([EmitEvent ''error'' ''SIGINT'', LogError ''SIGINT'', ProcessExit 1], Some ''456'')"
  by (simp add: releaseLibraryLock_def acquireLibraryLock_def rm_def writeFile_def digit_def
      signalListener_def handle_def new_ErrorHandler_def ERROR_EVENT_def Let_def)

text \<open>
  C1, amended: releasing the lock deletes the lock file exactly when the file exists and
  either holds the PID of the current process or the force option is set; in every other
  case the call throws a library error and leaves the file as it was. The lock is
  released when the run of the application that was started (sync or archive) ends,
  normally or with a thrown error: after the run the lock file is gone when it was absent
  before the run, held the PID of this process, or the force option is set, and it is
  left as it was when it holds another PID and the force option is not set. The lock is
  not released on a signal: the listener hands an interrupt error to the handler, which
  for the severity \<^verbatim>\<open>FATAL\<close> (the severity the specification gives an interrupt) exits the
  process with code 1 and leaves the lock file as it was.
\<close>

theorem library_lock_on_exit:
  "(existsSync lock \<and> (lock = Some (decimal (pid this)) \<or> force this) \<longrightarrow>
      releaseLibraryLock this lock = (Inr (), None)) \<and>
   (\<not> (existsSync lock \<and> (lock = Some (decimal (pid this)) \<or> force this)) \<longrightarrow>
      (\<exists>err. releaseLibraryLock this lock = (Inl err, lock) \<and> errorClass err = LibraryError)) \<and>
   (className this = SyncApp \<longrightarrow>
      lockFile (snd (SyncApp_run this c s)) =
        (if lockFile s = None \<or> lockFile s = Some (decimal (pid this)) \<or> force this then None
         else lockFile s)) \<and>
   (className this = ArchiveApp \<longrightarrow>
      lockFile (snd (ArchiveApp_run this c s)) =
        (if lockFile s = None \<or> lockFile s = Some (decimal (pid this)) \<or> force this then None
         else lockFile s)) \<and>
   (sev interruptError = FATAL \<longrightarrow>
      ProcessExit 1 \<in> set (fst (signalListener handler errorUUID interruptError lock)) \<and>
      snd (signalListener handler errorUUID interruptError lock) = lock)"
proof (intro conjI impI)
  assume "existsSync lock \<and> (lock = Some (decimal (pid this)) \<or> force this)"
  then show "releaseLibraryLock this lock = (Inr (), None)"
    by (cases lock)
      (auto simp add: releaseLibraryLock_def existsSync_def rm_def simp del: decimal.simps)
next
  assume "\<not> (existsSync lock \<and> (lock = Some (decimal (pid this)) \<or> force this))"
  then show "\<exists>err. releaseLibraryLock this lock = (Inl err, lock) \<and> errorClass err = LibraryError"
    by (cases lock)
      (auto simp add: releaseLibraryLock_def new_AppError_def existsSync_def
        simp del: decimal.simps)
next
  assume "className this = SyncApp"
  then show "lockFile (snd (SyncApp_run this c s)) =
        (if lockFile s = None \<or> lockFile s = Some (decimal (pid this)) \<or> force this then None
         else lockFile s)"
    by (cases "lockFile s")
      (auto simp add: SyncApp_run_def iCloudApp_run_def try_finally_def
        acquireLibraryLock_def releaseLibraryLock_def clean_def SyncApp_clean_def
        iCloudApp_clean_def new_AppError_def writeFile_def rm_def Let_def
        split: option.splits sum.splits simp del: decimal.simps)
next
  assume "className this = ArchiveApp"
  then show "lockFile (snd (ArchiveApp_run this c s)) =
        (if lockFile s = None \<or> lockFile s = Some (decimal (pid this)) \<or> force this then None
         else lockFile s)"
    by (cases "lockFile s")
      (auto simp add: ArchiveApp_run_def SyncApp_run_def iCloudApp_run_def try_finally_def
        acquireLibraryLock_def releaseLibraryLock_def clean_def ArchiveApp_clean_def
        SyncApp_clean_def iCloudApp_clean_def new_AppError_def writeFile_def rm_def Let_def
        split: option.splits sum.splits prod.splits simp del: decimal.simps)
next
  assume "sev interruptError = FATAL"
  then show "ProcessExit 1 \<in> set (fst (signalListener handler errorUUID interruptError lock))"
    by (simp add: signalListener_def handle_def Let_def)
next
  show "snd (signalListener handler errorUUID interruptError lock) = lock"
    by (simp add: signalListener_def)
qed

theorem library_lock_on_exit_witness:
  "releaseLibraryLock \<lparr>className = SyncApp, force = False, pid = 456, archivePath = []\<rparr> (Some ''456'') =
     (Inr (), None) \<and>
   (\<exists>err. releaseLibraryLock \<lparr>className = SyncApp, force = False, pid = 456, archivePath = []\<rparr> (Some ''123'') =
     (Inl err, Some ''123'') \<and> errorClass err = LibraryError) \<and>
   lockFile (snd (SyncApp_run \<lparr>className = SyncApp, force = False, pid = 456, archivePath = []\<rparr>
     \<lparr>icloud_authenticate = None, syncEngine_sync = Inl (AppError ComponentError ''offline'' None []),
      archiveEngine_archivePath = None\<rparr>
     \<lparr>lockFile = None, calls = []\<rparr>)) = None \<and>
   lockFile (snd (ArchiveApp_run \<lparr>className = ArchiveApp, force = False, pid = 456, archivePath = ''Holidays''\<rparr>
     \<lparr>icloud_authenticate = None, syncEngine_sync = Inr ([Asset ''a1''], []),
      archiveEngine_archivePath = None\<rparr>
     \<lparr>lockFile = Some ''123'', calls = []\<rparr>)) = Some ''123'' \<and>
   ProcessExit 1 \<in> set (fst (signalListener (new_ErrorHandler True) ''id-1''
     \<lparr>getDescription = ''SIGTERM'', sev = FATAL, instanceofInterruptError = True, icps_cause = None\<rparr>
     (Some ''456''))) \<and>
   snd (signalListener (new_ErrorHandler True) ''id-1''
     \<lparr>getDescription = ''SIGTERM'', sev = FATAL, instanceofInterruptError = True, icps_cause = None\<rparr>
     (Some ''456'')) = Some ''456''"
  using
    library_lock_on_exit [of "Some ''456''"
      "\<lparr>className = SyncApp, force = False, pid = 456, archivePath = []\<rparr>"
      "\<lparr>icloud_authenticate = None, syncEngine_sync = Inl (AppError ComponentError ''offline'' None []),
        archiveEngine_archivePath = None\<rparr>"
      "\<lparr>lockFile = None, calls = []\<rparr>"
      "\<lparr>getDescription = ''SIGTERM'', sev = FATAL, instanceofInterruptError = True, icps_cause = None\<rparr>"
      "new_ErrorHandler True" "''id-1''"]
    library_lock_on_exit [of "Some ''123''"
      "\<lparr>className = SyncApp, force = False, pid = 456, archivePath = []\<rparr>"
      "\<lparr>icloud_authenticate = None, syncEngine_sync = Inl (AppError ComponentError ''offline'' None []),
        archiveEngine_archivePath = None\<rparr>"
      "\<lparr>lockFile = None, calls = []\<rparr>"
      "\<lparr>getDescription = ''SIGTERM'', sev = FATAL, instanceofInterruptError = True, icps_cause = None\<rparr>"
      "new_ErrorHandler True" "''id-1''"]
    library_lock_on_exit [of "Some ''123''"
      "\<lparr>className = ArchiveApp, force = False, pid = 456, archivePath = ''Holidays''\<rparr>"
      "\<lparr>icloud_authenticate = None, syncEngine_sync = Inr ([Asset ''a1''], []),
        archiveEngine_archivePath = None\<rparr>"
      "\<lparr>lockFile = Some ''123'', calls = []\<rparr>"
      "\<lparr>getDescription = ''SIGTERM'', sev = FATAL, instanceofInterruptError = True, icps_cause = None\<rparr>"
      "new_ErrorHandler True" "''id-1''"]
  by (simp add: digit_def existsSync_def)

lemma acquire_free:
  "lock = None \<or> force this \<Longrightarrow> acquireLibraryLock this lock = (Inr (), Some (decimal (pid this)))"
  by (cases lock) (simp_all add: acquireLibraryLock_def writeFile_def rm_def del: decimal.simps)

lemma release_own:
  "releaseLibraryLock this (Some (decimal (pid this))) = (Inr (), None)"
  by (simp add: releaseLibraryLock_def rm_def del: decimal.simps)

lemma clean_own:
  "lockFile s = Some (decimal (pid this)) \<Longrightarrow> clean this s = (Inr (), s\<lparr>lockFile := None\<rparr>)"
  by (cases "className this")
    (simp_all add: clean_def ArchiveApp_clean_def SyncApp_clean_def iCloudApp_clean_def release_own
      del: decimal.simps)

text \<open>
  C10, amended: a run of the archive application first acquires the lock, authenticates
  and runs the sync engine, and calls \<^verbatim>\<open>archivePath\<close> only when all three succeeded, once,
  with the archive path and exactly the remote assets the sync returned. When the lock
  file is absent, holds the PID of this process, or the force option is set, every
  failure (of the lock, the authentication, the sync or the archiving) is thrown as an
  archive error that carries the archive path and the failure as its cause, and the lock
  file is gone after the run whatever the outcome. When the lock file holds another PID
  and the force option is not set, no component is called and the lock file is left as
  it was.
\<close>

theorem ArchiveApp_run_stages:
  assumes "className this = ArchiveApp"
  shows
  "(lockFile s = None \<or> force this \<longrightarrow>
     (\<forall>err. icloud_authenticate c = Some err \<longrightarrow>
        ArchiveApp_run this c s =
          (Inl (AppError ArchiveError ''Archive failed''
             (Some (AppError SyncError ''Sync failed''
               (Some (AppError iCloudError ''Authentication failed'' (Some err) [])) []))
             [(''archivePath'', archivePath this)]),
           s\<lparr>lockFile := None, calls := calls s @ [Authenticate]\<rparr>)) \<and>
     (\<forall>err. icloud_authenticate c = None \<and> syncEngine_sync c = Inl err \<longrightarrow>
        ArchiveApp_run this c s =
          (Inl (AppError ArchiveError ''Archive failed''
             (Some (AppError SyncError ''Sync failed'' (Some err) []))
             [(''archivePath'', archivePath this)]),
           s\<lparr>lockFile := None, calls := calls s @ [Authenticate, Sync]\<rparr>)) \<and>
     (\<forall>remoteAssets remoteAlbums err.
        icloud_authenticate c = None \<and> syncEngine_sync c = Inr (remoteAssets, remoteAlbums) \<and>
        archiveEngine_archivePath c = Some err \<longrightarrow>
        ArchiveApp_run this c s =
          (Inl (AppError ArchiveError ''Archive failed'' (Some err)
             [(''archivePath'', archivePath this)]),
           s\<lparr>lockFile := None,
             calls := calls s @ [Authenticate, Sync, ArchivePath (archivePath this) remoteAssets]\<rparr>)) \<and>
     (\<forall>remoteAssets remoteAlbums.
        icloud_authenticate c = None \<and> syncEngine_sync c = Inr (remoteAssets, remoteAlbums) \<and>
        archiveEngine_archivePath c = None \<longrightarrow>
        ArchiveApp_run this c s =
          (Inr (),
           s\<lparr>lockFile := None,
             calls := calls s @ [Authenticate, Sync, ArchivePath (archivePath this) remoteAssets]\<rparr>))) \<and>
   (lockFile s = Some (decimal (pid this)) \<and> \<not> force this \<longrightarrow>
      ArchiveApp_run this c s =
        (Inl (AppError ArchiveError ''Archive failed''
           (Some (AppError SyncError ''Sync failed''
             (Some (AppError LibraryError ''Unable to acquire lock''
               (Some (AppError LibraryError
                 (''Locked by PID '' @ decimal (pid this) @
                  ''. Use --force (or FORCE env variable) to forcefully remove the lock'') None []))
               [])) []))
           [(''archivePath'', archivePath this)]),
         s\<lparr>lockFile := None\<rparr>)) \<and>
   (\<forall>lockingProcess. lockFile s = Some lockingProcess \<and> lockingProcess \<noteq> decimal (pid this) \<and>
      \<not> force this \<longrightarrow> snd (ArchiveApp_run this c s) = s)"
proof (cases "lockFile s = None \<or> force this")
  case True
  then have acquired:
    "acquireLibraryLock this (lockFile s) = (Inr (), Some (decimal (pid this)))"
    by (rule acquire_free)
  have own: "lockFile s = Some (decimal (pid this)) \<Longrightarrow> force this"
    using True by simp
  show ?thesis
    using assms True own
    by (auto simp add: ArchiveApp_run_def SyncApp_run_def iCloudApp_run_def try_finally_def
        acquired clean_own Let_def new_AppError_def simp del: decimal.simps)
next
  case False
  then obtain lockingProcess where held: "lockFile s = Some lockingProcess" "\<not> force this"
    by auto
  have refused: "fst (acquireLibraryLock this (lockFile s)) =
      Inl (AppError LibraryError
        (''Locked by PID '' @ lockingProcess @
         ''. Use --force (or FORCE env variable) to forcefully remove the lock'') None [])"
    and kept: "snd (acquireLibraryLock this (lockFile s)) = lockFile s"
    using held by (simp_all add: acquireLibraryLock_def new_AppError_def)
  show ?thesis
  proof (cases "lockingProcess = decimal (pid this)")
    case True
    with held have "lockFile s = Some (decimal (pid this))"
      by simp
    then show ?thesis
      using assms held refused kept
      by (auto simp add: ArchiveApp_run_def SyncApp_run_def iCloudApp_run_def try_finally_def
          clean_own Let_def new_AppError_def split: prod.splits simp del: decimal.simps)
  next
    case False
    then have "clean this (s\<lparr>lockFile := lockFile s\<rparr>) =
        (Inl (AppError LibraryError
          (''Locked by PID '' @ lockingProcess @
           '', cannot release. Use --force (or FORCE env variable) to forcefully remove the lock'')
          None []), s)"
      using assms held
      by (simp add: clean_def ArchiveApp_clean_def SyncApp_clean_def iCloudApp_clean_def
          releaseLibraryLock_def new_AppError_def del: decimal.simps)
    then show ?thesis
      using assms held False refused kept
      by (auto simp add: ArchiveApp_run_def SyncApp_run_def iCloudApp_run_def try_finally_def
          Let_def split: prod.splits simp del: decimal.simps)
  qed
qed

text \<open>
  C10 as stated fails when another process (PID 123) holds the lock and the force option
  is not set: the run throws the library error of the release in its \<^verbatim>\<open>finally\<close> block,
  not an archive error, and the lock file is not removed.
\<close>

theorem ArchiveApp_run_lock_held_counterexample:
  "ArchiveApp_run
     \<lparr>className = ArchiveApp, force = False, pid = 456, archivePath = ''Holidays''\<rparr>
     \<lparr>icloud_authenticate = None, syncEngine_sync = Inr ([], []),
      archiveEngine_archivePath = None\<rparr>
     \<lparr>lockFile = Some ''123'', calls = []\<rparr> =
   (Inl (AppError LibraryError
      ''Locked by PID 123, cannot release. Use --force (or FORCE env variable) to forcefully remove the lock''
      None []),
    \<lparr>lockFile = Some ''123'', calls = []\<rparr>)"
  by (simp add: ArchiveApp_run_def SyncApp_run_def iCloudApp_run_def try_finally_def
      acquireLibraryLock_def releaseLibraryLock_def clean_def ArchiveApp_clean_def
      SyncApp_clean_def iCloudApp_clean_def new_AppError_def Let_def digit_def)

theorem ArchiveApp_run_stages_witness:
  "ArchiveApp_run
     \<lparr>className = ArchiveApp, force = False, pid = 456, archivePath = ''Holidays''\<rparr>
     \<lparr>icloud_authenticate = None, syncEngine_sync = Inr ([Asset ''a1'', Asset ''a2''], [Album ''b1'']),
      archiveEngine_archivePath = None\<rparr>
     \<lparr>lockFile = None, calls = []\<rparr> =
   (Inr (),
    \<lparr>lockFile = None,
     calls = [Authenticate, Sync, ArchivePath ''Holidays'' [Asset ''a1'', Asset ''a2'']]\<rparr>) \<and>
   ArchiveApp_run
     \<lparr>className = ArchiveApp, force = False, pid = 456, archivePath = ''Holidays''\<rparr>
     \<lparr>icloud_authenticate = None, syncEngine_sync = Inl (AppError ComponentError ''offline'' None []),
      archiveEngine_archivePath = None\<rparr>
     \<lparr>lockFile = None, calls = []\<rparr> =
   (Inl (AppError ArchiveError ''Archive failed''
      (Some (AppError SyncError ''Sync failed'' (Some (AppError ComponentError ''offline'' None [])) []))
      [(''archivePath'', ''Holidays'')]),
    \<lparr>lockFile = None, calls = [Authenticate, Sync]\<rparr>) \<and>
   snd (ArchiveApp_run
     \<lparr>className = ArchiveApp, force = False, pid = 456, archivePath = ''Holidays''\<rparr>
     \<lparr>icloud_authenticate = None, syncEngine_sync = Inr ([Asset ''a1'', Asset ''a2''], [Album ''b1'']),
      archiveEngine_archivePath = None\<rparr>
     \<lparr>lockFile = Some ''123'', calls = []\<rparr>) =
   \<lparr>lockFile = Some ''123'', calls = []\<rparr>"
  using
    ArchiveApp_run_stages [of
      "\<lparr>className = ArchiveApp, force = False, pid = 456, archivePath = ''Holidays''\<rparr>"
      "\<lparr>lockFile = None, calls = []\<rparr>"
      "\<lparr>icloud_authenticate = None, syncEngine_sync = Inr ([Asset ''a1'', Asset ''a2''], [Album ''b1'']),
        archiveEngine_archivePath = None\<rparr>"]
    ArchiveApp_run_stages [of
      "\<lparr>className = ArchiveApp, force = False, pid = 456, archivePath = ''Holidays''\<rparr>"
      "\<lparr>lockFile = None, calls = []\<rparr>"
      "\<lparr>icloud_authenticate = None, syncEngine_sync = Inl (AppError ComponentError ''offline'' None []),
        archiveEngine_archivePath = None\<rparr>"]
    ArchiveApp_run_stages [of
      "\<lparr>className = ArchiveApp, force = False, pid = 456, archivePath = ''Holidays''\<rparr>"
      "\<lparr>lockFile = Some ''123'', calls = []\<rparr>"
      "\<lparr>icloud_authenticate = None, syncEngine_sync = Inr ([Asset ''a1'', Asset ''a2''], [Album ''b1'']),
        archiveEngine_archivePath = None\<rparr>"]
  by (simp add: digit_def)

section \<open>Properties of the error handler\<close>

text \<open>
  C7: for every error given to the handler: the process exits, with code 1, exactly when
  the severity of the error is \<^verbatim>\<open>FATAL\<close>; an error of severity \<^verbatim>\<open>WARN\<close> emits the
  warning event, logs a warning and nothing else, so execution continues; and a crash
  report is sent exactly when the severity is \<^verbatim>\<open>FATAL\<close>, crash reporting is enabled and
  the error is not an interrupt error.
\<close>

theorem handle_exit_and_report:
  "(ProcessExit 1 \<in> set (handle (new_ErrorHandler enableCrashReporting) errorUUID err)) = (sev err = FATAL) \<and>
   (\<exists>code. ProcessExit code \<in> set (handle (new_ErrorHandler enableCrashReporting) errorUUID err)) = (sev err = FATAL) \<and>
   (\<exists>report. SendReport report \<in> set (handle (new_ErrorHandler enableCrashReporting) errorUUID err)) =
     (sev err = FATAL \<and> enableCrashReporting \<and> \<not> instanceofInterruptError err) \<and>
   (sev err = WARN \<longrightarrow>
      handle (new_ErrorHandler enableCrashReporting) errorUUID err =
        [EmitEvent WARN_EVENT (getDescription err), LogWarn (getDescription err)])"
  by (cases "sev err")
    (auto simp add: handle_def reportError_def new_ErrorHandler_def Let_def)

theorem handle_exit_and_report_witness:
  "handle (new_ErrorHandler True) ''id-1''
     \<lparr>getDescription = ''Lock held'', sev = WARN, instanceofInterruptError = False,
      icps_cause = None\<rparr> =
     [EmitEvent WARN_EVENT ''Lock held'', LogWarn ''Lock held''] \<and>
   ProcessExit 1 \<in> set (handle (new_ErrorHandler True) ''id-1''
     \<lparr>getDescription = ''Sync failed'', sev = FATAL, instanceofInterruptError = False,
      icps_cause = None\<rparr>) \<and>
   (\<exists>report. SendReport report \<in> set (handle (new_ErrorHandler True) ''id-1''
     \<lparr>getDescription = ''Sync failed'', sev = FATAL, instanceofInterruptError = False,
      icps_cause = None\<rparr>))"
  using
    handle_exit_and_report [of True "''id-1''"
      "\<lparr>getDescription = ''Lock held'', sev = WARN, instanceofInterruptError = False,
        icps_cause = None\<rparr>"]
    handle_exit_and_report [of True "''id-1''"
      "\<lparr>getDescription = ''Sync failed'', sev = FATAL, instanceofInterruptError = False,
        icps_cause = None\<rparr>"]
  by simp

section \<open>Properties of the scrubbing\<close>

text \<open>
  The arguments of the runtime are never written: the index found in \<^verbatim>\<open>process.execArgv\<close>
  is used to write into \<^verbatim>\<open>process.argv\<close>.
\<close>

lemma cleanCliValue_execArgv: "execArgv (cleanCliValue r f p) = execArgv p"
  by (simp add: cleanCliValue_def Let_def)

lemma fold_cleanCliValue_execArgv: "execArgv (fold (cleanCliValue r) fs p) = execArgv p"
  by (induction fs arbitrary: p) (simp_all add: cleanCliValue_execArgv)

lemma cleanEntry_execArgv: "execArgv (cleanEntry e p) = execArgv p"
  by (simp add: cleanEntry_def fold_cleanCliValue_execArgv)

lemma cleanEnv_execArgv: "execArgv (cleanEnv p) = execArgv p"
  by (simp add: cleanEnv_def confidentialData_def cleanEntry_execArgv)

text \<open>
  C2 at a failing input: the username flag is given twice on the command line. Only the
  entry after the first occurrence is replaced; the second username is still in the
  argument vector after the scrubbing.
\<close>

theorem cleanEnv_repeated_flag:
  "argv (cleanEnv
     \<lparr>env = Map.empty,
      argv = [Some ''node'', Some ''icloud-photos-sync'', Some ''-u'', Some ''first@example.com'',
              Some ''-u'', Some ''second@example.com'', Some ''sync''],
      execArgv = []\<rparr>) =
   [Some ''node'', Some ''icloud-photos-sync'', Some ''-u'', Some ''<APPLE ID USERNAME>'',
    Some ''-u'', Some ''second@example.com'', Some ''sync'']"
  by (simp add: cleanEnv_def confidentialData_def cleanEntry_def cleanCliValue_def env_truthy_def
      array_set_def Let_def)

section \<open>Properties of the MFA server\<close>

text \<open>
  C3: for every request \<^verbatim>\<open>POST /mfa?code=C\<close> given to the code handler: when \<open>C\<close> is
  exactly six decimal digits, the handler replies 200 with the message
  \<^verbatim>\<open>Read MFA code: C\<close> and emits \<^verbatim>\<open>MFA_RECEIVED\<close> with the current method and \<open>C\<close>, once;
  for every other \<open>C\<close> it replies 400 with the message
  \<^verbatim>\<open>Unexpected MFA code format! Expecting 6 digits\<close>, emits a warning and emits no
  \<^verbatim>\<open>MFA_RECEIVED\<close>.
\<close>

theorem handleMFACode_six_digits:
  "(length C = 6 \<and> set C \<subseteq> set ''0123456789'' \<longrightarrow>
      handleMFACode mfaMethod \<lparr>url = ''/mfa?code='' @ C, httpMethod = POST\<rparr> =
        [Emit (MFA_RECEIVED mfaMethod C), SendResponse 200 (''Read MFA code: '' @ C)]) \<and>
   (\<not> (length C = 6 \<and> set C \<subseteq> set ''0123456789'') \<longrightarrow>
      handleMFACode mfaMethod \<lparr>url = ''/mfa?code='' @ C, httpMethod = POST\<rparr> =
        [SendResponse 400 ''Unexpected MFA code format! Expecting 6 digits'',
         Emit (HANDLER_EVENT ''Received unexpected MFA code format, expecting 6 digits'')])"
proof -
  have six: "six_digits C = (length C = 6 \<and> set C \<subseteq> set ''0123456789'')"
    unfolding six_digits_def list_all_iff by blast
  show ?thesis
    by (simp add: handleMFACode_def Let_def startsWith_def CODE_INPUT_def six)
qed

theorem handleMFACode_six_digits_witness:
  "handleMFACode (MFAMethod_update ''device'' 1) \<lparr>url = ''/mfa?code=123456'', httpMethod = POST\<rparr> =
     [Emit (MFA_RECEIVED (MFAMethod_update ''device'' 1) ''123456''),
      SendResponse 200 ''Read MFA code: 123456''] \<and>
   handleMFACode (MFAMethod_update ''device'' 1) \<lparr>url = ''/mfa?code=123 456'', httpMethod = POST\<rparr> =
     [SendResponse 400 ''Unexpected MFA code format! Expecting 6 digits'',
      Emit (HANDLER_EVENT ''Received unexpected MFA code format, expecting 6 digits'')]"
  using handleMFACode_six_digits [of "''123456''" "MFAMethod_update ''device'' 1"]
    handleMFACode_six_digits [of "''123 456''" "MFAMethod_update ''device'' 1"]
  by simp

text \<open>
  C8: for every request whose URL matches no known endpoint (it is not \<^verbatim>\<open>/\<close> and begins
  with neither \<^verbatim>\<open>/mfa\<close> nor \<^verbatim>\<open>/resend_mfa\<close>): a \<^verbatim>\<open>GET\<close> is answered 400 with a
  method-not-supported message, a \<^verbatim>\<open>POST\<close> is answered 404 with a message that lists the
  endpoints \<^verbatim>\<open>/mfa\<close> and \<^verbatim>\<open>/resend_mfa\<close>; in both cases a warning is emitted and neither
  the code handler nor the resend handler is called.
\<close>

theorem handleRequest_unknown_route:
  assumes "url req \<noteq> ''/''"
    and "\<not> startsWith (url req) ''/mfa''"
    and "\<not> startsWith (url req) ''/resend_mfa''"
  shows
  "(httpMethod req = GET \<longrightarrow>
      handleRequest banner req =
        [SendResponse 400 ''Method not supported: GET'',
         Emit (HANDLER_EVENT (''Received unknown method to endpoint '' @ url req @ '': GET''))]) \<and>
   (httpMethod req = POST \<longrightarrow>
      handleRequest banner req =
        [SendResponse 404
           (''Route not found, available endpoints: ['' @ [CHR 0x22] @ ''/mfa'' @ [CHR 0x22] @ '','' @
            [CHR 0x22] @ ''/resend_mfa'' @ [CHR 0x22] @ '']''),
         Emit (HANDLER_EVENT (''Received request to unknown endpoint '' @ url req))]) \<and>
   (\<forall>r. CallHandleMFACode r \<notin> set (handleRequest banner req)) \<and>
   (\<forall>r. CallHandleMFAResend r \<notin> set (handleRequest banner req))"
  using assms
  by (cases "httpMethod req")
    (simp_all add: handleRequest_def endpoints_json_def CODE_INPUT_def RESEND_CODE_def)

theorem handleRequest_unknown_route_witness:
  "handleRequest ''banner'' \<lparr>url = ''/invalid'', httpMethod = GET\<rparr> =
     [SendResponse 400 ''Method not supported: GET'',
      Emit (HANDLER_EVENT ''Received unknown method to endpoint /invalid: GET'')] \<and>
   handleRequest ''banner'' \<lparr>url = ''/invalid'', httpMethod = POST\<rparr> =
     [SendResponse 404
        (''Route not found, available endpoints: ['' @ [CHR 0x22] @ ''/mfa'' @ [CHR 0x22] @ '','' @
         [CHR 0x22] @ ''/resend_mfa'' @ [CHR 0x22] @ '']''),
      Emit (HANDLER_EVENT ''Received request to unknown endpoint /invalid'')]"
  using handleRequest_unknown_route [of "\<lparr>url = ''/invalid'', httpMethod = GET\<rparr>" "''banner''"]
    handleRequest_unknown_route [of "\<lparr>url = ''/invalid'', httpMethod = POST\<rparr>" "''banner''"]
  by (simp add: startsWith_def)

end
